theory Spec2Isabelle
  imports Complex_Main "HOL-Library.Multiset"
begin

section \<open>Data model of whale\_tracker.py\<close>

text \<open>
  Python floats are modelled as exact reals: every \<open>float(...)\<close> of a payload field is the
  real number the payload denotes, and float arithmetic is exact arithmetic. The one float
  the source builds that is no real number, \<open>float('inf')\<close>, has a constructor of its own
  in \<open>pyfloat\<close>. Payload fields are taken as well typed (numeric strings parse).
\<close>

type_synonym address = string

datatype direction = LONG | SHORT

text \<open>The dict returned by \<open>get_current_position\<close> and stored in previous\_positions.json.\<close>

record position =
  address :: address
  size_btc :: real
  direction :: direction
  entry_price :: real
  leverage :: real
  account_value :: real
  unrealized_pnl :: real

text \<open>One fill of the \<open>userFillsByTime\<close> response; an absent key is \<open>None\<close>.\<close>

record fill =
  coin :: "string option"
  closedPnl :: "real option"

text \<open>
  The \<open>clearinghouseState\<close> response. \<open>assetPositions\<close> is \<open>None\<close> when the key is
  missing; an entry of the list is \<open>None\<close> when it has no \<open>position\<close> key;
  \<open>accountValue\<close> is \<open>marginSummary.accountValue\<close>; \<open>leverage_value\<close> is
  \<open>position.leverage.value\<close>.
\<close>

record perp_position =
  position_coin :: "string option"
  szi :: "real option"
  entryPx :: "real option"
  leverage_value :: "real option"
  unrealizedPnl :: "real option"

record clearinghouse =
  assetPositions :: "perp_position option list option"
  accountValue :: "real option"

text \<open>
  What \<open>_post\<close> returns for the two request types, per account: \<open>None\<close> is the
  \<open>except Exception: return None\<close> branch (network error, timeout, HTTP error status,
  body that is not JSON).
\<close>

record network =
  userFillsByTime :: "address \<Rightarrow> fill list option"
  clearinghouseState :: "address \<Rightarrow> clearinghouse option"

text \<open>A Python float that is either finite or \<open>float('inf')\<close>.\<close>

datatype pyfloat = Finite real | PosInf

text \<open>
  The dict returned by \<open>get_whale_winrate\<close>. A field is \<open>None\<close> when the key is absent
  from the dict; \<open>winrate\<close> is \<open>Some None\<close> when the key is present with value
  \<open>None\<close>.
\<close>

record winrate_dict =
  wr_address :: address
  wr_address_short :: "string option"
  has_btc_trades :: bool
  total_btc_fills :: "nat option"
  closed_trades :: "nat option"
  wins :: "nat option"
  losses :: "nat option"
  winrate :: "real option option"
  total_pnl :: "real option"
  profit_factor :: "pyfloat option"
  period_days :: "int option"

text \<open>The three event dicts appended to \<open>new_positions\<close>, fields in source order.\<close>

datatype change =
  NEW_POSITION address string direction real real real real "real option" real nat
| DIRECTION_CHANGE address string direction direction real real real "real option" real nat
| SIZE_INCREASE address string direction real real real real "real option" real nat

fun change_address :: "change \<Rightarrow> address" where
  "change_address (NEW_POSITION a _ _ _ _ _ _ _ _ _) = a"
| "change_address (DIRECTION_CHANGE a _ _ _ _ _ _ _ _ _) = a"
| "change_address (SIZE_INCREASE a _ _ _ _ _ _ _ _ _) = a"

fun is_size_increase :: "change \<Rightarrow> bool" where
  "is_size_increase (SIZE_INCREASE _ _ _ _ _ _ _ _ _ _) = True"
| "is_size_increase _ = False"

definition WHALE_ADDRESSES :: "address list" where
  "WHALE_ADDRESSES =
    [''0xb83de012dba672c76a7dbbbf3e459cb59d7d6e36'',
     ''0xb317d2bc2d3d2df5fa441b5bae0ab9d8b07283ae'',
     ''0xc2a30212a8ddac9e123944d6e29faddce994e5f2'',
     ''0x4f9a37bc2a4a2861682c0e9be1f9417df03cc27c'',
     ''0x2ea18c23f72a4b6172c55b411823cdc5335923f4'',
     ''0x3e10864b0efa14994c350ed247c815966a8fd962'',
     ''0x3e10d813db3374877e2074cb8126066ca7dad962'',
     ''0x952044eb3c860b00778ea414670a6c8c22f84ac6'',
     ''0x99E1E710fAf2EA090E5cFA5A600c1478031640be'',
     ''0xEe7aE85f2Fe2239E27D9c1E23fFFe168D63b4055'',
     ''0xa5b0edf6b55128e0ddae8e51ac538c3188401d41'',
     ''0x9c89f595f5515609ad61f6fda94beff85ae6600e'',
     ''0x3c363e96d22c056d748f199fb728fc80d70e461a'',
     ''0xc26cbb6483229e0d0f9a1cab675271eda535b8f4'',
     ''0x175e7023e8dc93d0c044852685ac33e856b577b4'',
     ''0x0e41eb80e9a39ae7b887a94f6a88f6c791e26359'',
     ''0x0ddf9bae2af4b874b96d287a5ad42eb47138a902'',
     ''0xf97ad6704baec104d00b88e0c157e2b7b3a1ddd1'',
     ''0xefffa330cbae8d916ad1d33f0eeb16cfa711fa91'',
     ''0x6f1d35664eab0efa5a796091c28d14f1472d3162'',
     ''0xe0665019fcf5ffa4a5aea5cf65f84016fcbe78da'',
     ''0x4b66f4048a0a90fd5ff44abbe5d68332656b78b8'',
     ''0xa4add8273d7f47318675bdfbcce3e9648cdb4509'',
     ''0xfd97600ac44b3c4e20ac1a5f23e3b18d10fa5912'',
     ''0x7583b5364597736a6a72c4ba61ede0a4a37ef4de'',
     ''0x06cecfbac34101ae41c88ebc2450f8602b3d164b'',
     ''0x41206f8efb51e5039e5b46e04e7866a4849f72d2'',
     ''0x7fdafde5cfb5465924316eced2d3715494c517d1'',
     ''0x418aa6bf98a2b2bc93779f810330d88cde488888'',
     ''0x7ca165f354e3260e2f8d5a7508cc9dd2fa009235'',
     ''0x2c76be702ee99922754a6df7158091a5e33f7662'',
     ''0x3e5dacb70247b57aca1d62b927c398ff05b7e570'',
     ''0x0284bbd3646b59740a167ef78a306028343f3806'',
     ''0x92b585bdf2d67c0fe321108b863ca4617dd39fe9'',
     ''0xad572a7894c7b0ba4db67c2a7602dd3376d4f094'',
     ''0x11eee2e0a613af4f636e23ff295e2dac6a191d1d'']"

section \<open>Helpers of the Python runtime\<close>

text \<open>
  \<open>round(x, n)\<close> on an exact value: the nearest multiple of \<open>10^-n\<close>, a tie going to
  the even one.
\<close>

definition py_round :: "real \<Rightarrow> nat \<Rightarrow> real" where
  "py_round x n =
     (let y = x * 10 ^ n; f = \<lfloor>y\<rfloor>; d = y - of_int f
      in of_int (if d < 1 / 2 then f else if 1 / 2 < d then f + 1
                 else if even f then f else f + 1) / 10 ^ n)"

text \<open>\<open>round\<close> returns an infinity unchanged when \<open>ndigits\<close> is given.\<close>

fun py_round_float :: "pyfloat \<Rightarrow> nat \<Rightarrow> pyfloat" where
  "py_round_float (Finite x) n = Finite (py_round x n)"
| "py_round_float PosInf n = PosInf"

text \<open>\<open>address[:10] + '...'\<close>\<close>

definition address_short :: "address \<Rightarrow> string" where
  "address_short a = take 10 a @ ''...''"

text \<open>\<open>d.get(key, default)\<close> on an optional field.\<close>

definition get_or :: "'a option \<Rightarrow> 'a \<Rightarrow> 'a" where
  "get_or v d = (case v of None \<Rightarrow> d | Some x \<Rightarrow> x)"

section \<open>get\_whale\_winrate\<close>

text \<open>\<open>float(f.get('closedPnl', 0))\<close>\<close>

definition pnl :: "fill \<Rightarrow> real" where
  "pnl f = get_or (closedPnl f) 0"

text \<open>The locals \<open>btc_fills\<close>, \<open>closed_trades\<close>, \<open>gross_profit\<close>, \<open>gross_loss\<close>, \<open>profit_factor\<close>.\<close>

definition btc_fills_of :: "fill list \<Rightarrow> fill list" where
  "btc_fills_of fills = filter (\<lambda>f. coin f = Some ''BTC'') fills"

definition closed_trades_of :: "fill list \<Rightarrow> fill list" where
  "closed_trades_of fills = filter (\<lambda>f. pnl f \<noteq> 0) (btc_fills_of fills)"

definition gross_profit_of :: "fill list \<Rightarrow> real" where
  "gross_profit_of closed_fills = sum_list (map pnl (filter (\<lambda>f. 0 < pnl f) closed_fills))"

definition gross_loss_of :: "fill list \<Rightarrow> real" where
  "gross_loss_of closed_fills = \<bar>sum_list (map pnl (filter (\<lambda>f. pnl f < 0) closed_fills))\<bar>"

definition profit_factor_of :: "fill list \<Rightarrow> pyfloat" where
  "profit_factor_of closed_fills =
     (if 0 < gross_loss_of closed_fills then Finite (gross_profit_of closed_fills / gross_loss_of closed_fills)
      else PosInf)"

text \<open>The dict of the first return, \<open>{'address': address, 'has_btc_trades': False}\<close>.\<close>

definition no_fills_result :: "address \<Rightarrow> winrate_dict" where
  "no_fills_result a =
     \<lparr>wr_address = a, wr_address_short = None, has_btc_trades = False,
      total_btc_fills = None, closed_trades = None, wins = None, losses = None,
      winrate = None, total_pnl = None, profit_factor = None, period_days = None\<rparr>"

definition get_whale_winrate :: "network \<Rightarrow> address \<Rightarrow> int \<Rightarrow> winrate_dict" where
  "get_whale_winrate net a days =
     (case userFillsByTime net a of
        None \<Rightarrow> no_fills_result a
      | Some fills \<Rightarrow>
          if fills = [] then no_fills_result a
          else
            let btc_fills = btc_fills_of fills;
                closed_fills = closed_trades_of fills
            in if closed_fills = [] then
                 \<lparr>wr_address = a, wr_address_short = None,
                  has_btc_trades = (0 < length btc_fills),
                  total_btc_fills = Some (length btc_fills), closed_trades = Some 0,
                  wins = None, losses = None, winrate = Some None, total_pnl = None,
                  profit_factor = None, period_days = None\<rparr>
               else
                 let w = length (filter (\<lambda>f. 0 < pnl f) closed_fills);
                     l = length (filter (\<lambda>f. pnl f < 0) closed_fills);
                     total = sum_list (map pnl closed_fills)
                 in \<lparr>wr_address = a, wr_address_short = Some (address_short a),
                     has_btc_trades = True,
                     total_btc_fills = Some (length btc_fills),
                     closed_trades = Some (length closed_fills),
                     wins = Some w, losses = Some l,
                     winrate = Some (Some (if 0 < w + l
                                           then py_round (real w / real (w + l) * 100) 1
                                           else 0)),
                     total_pnl = Some (py_round total 2),
                     profit_factor = Some (py_round_float (profit_factor_of closed_fills) 2),
                     period_days = Some days\<rparr>)"

section \<open>get\_current\_position\<close>

text \<open>The \<open>for pos in data['assetPositions']\<close> loop with its early return.\<close>

fun scan_positions :: "address \<Rightarrow> real \<Rightarrow> perp_position option list \<Rightarrow> position option" where
  "scan_positions a av [] = None"
| "scan_positions a av (pos # rest) =
     (case pos of
        None \<Rightarrow> scan_positions a av rest
      | Some p \<Rightarrow>
          if position_coin p = Some ''BTC'' then
            (let size = get_or (szi p) 0
             in if size \<noteq> 0 then
                  Some \<lparr>address = a, size_btc = size,
                        direction = (if 0 < size then LONG else SHORT),
                        entry_price = get_or (entryPx p) 0,
                        leverage = get_or (leverage_value p) 1,
                        account_value = av,
                        unrealized_pnl = get_or (unrealizedPnl p) 0\<rparr>
                else scan_positions a av rest)
          else scan_positions a av rest)"

definition get_current_position :: "network \<Rightarrow> address \<Rightarrow> position option" where
  "get_current_position net a =
     (case clearinghouseState net a of
        None \<Rightarrow> None
      | Some data \<Rightarrow>
          (case assetPositions data of
             None \<Rightarrow> None
           | Some ps \<Rightarrow> scan_positions a (get_or (accountValue data) 0) ps))"

section \<open>check\_position\_changes\<close>

text \<open>
  The \<open>if\<close>/\<open>elif\<close> chain of the loop body: the events it appends for one account,
  given the account's current and previous snapshots.
\<close>

definition detect_change ::
  "network \<Rightarrow> address \<Rightarrow> position option \<Rightarrow> position option \<Rightarrow> change list" where
  "detect_change net a current previous =
     (let wr_data = get_whale_winrate net a 30;
          wr = get_or (winrate wr_data) None;
          pnl_30d = get_or (total_pnl wr_data) 0;
          trades_30d = get_or (closed_trades wr_data) 0
      in case (current, previous) of
           (Some c, None) \<Rightarrow>
             [NEW_POSITION a (address_short a) (direction c) \<bar>size_btc c\<bar> (entry_price c)
                (leverage c) (account_value c) wr pnl_30d trades_30d]
         | (Some c, Some p) \<Rightarrow>
             if direction c \<noteq> direction p then
               [DIRECTION_CHANGE a (address_short a) (direction p) (direction c)
                  \<bar>size_btc c\<bar> (entry_price c) (leverage c) wr pnl_30d trades_30d]
             else
               (let prev_size = \<bar>size_btc p\<bar>; curr_size = \<bar>size_btc c\<bar>
                in if 0 < prev_size then
                     (let size_change = (curr_size - prev_size) / prev_size * 100
                      in if 50 < size_change then
                           [SIZE_INCREASE a (address_short a) (direction c) prev_size
                              curr_size (py_round size_change 1) (leverage c) wr pnl_30d
                              trades_30d]
                         else [])
                   else [])
         | (None, _) \<Rightarrow> [])"

text \<open>
  The loop over the roster, threading \<open>new_positions\<close> and \<open>current_positions\<close>. The
  second component of the result is the dict handed to \<open>_save_previous_positions\<close>.
\<close>

fun check_loop ::
  "network \<Rightarrow> (address \<rightharpoonup> position) \<Rightarrow> address list \<Rightarrow>
   change list \<times> (address \<rightharpoonup> position) \<Rightarrow> change list \<times> (address \<rightharpoonup> position)" where
  "check_loop net prev [] acc = acc"
| "check_loop net prev (a # as) (new_positions, current_positions) =
     (let current = get_current_position net a;
          previous = prev a;
          current_positions' = (case current of None \<Rightarrow> current_positions
                                | Some c \<Rightarrow> current_positions(a \<mapsto> c))
      in check_loop net prev as
           (new_positions @ detect_change net a current previous, current_positions'))"

definition check_position_changes ::
  "network \<Rightarrow> (address \<rightharpoonup> position) \<Rightarrow> change list \<times> (address \<rightharpoonup> position)" where
  "check_position_changes net prev = check_loop net prev WHALE_ADDRESSES ([], Map.empty)"

section \<open>get\_all\_winrates\<close>

datatype py_error = TypeError

text \<open>The sort key \<open>x.get('winrate', 0)\<close>: \<open>None\<close> when the key is present with value \<open>None\<close>.\<close>

definition winrate_key :: "winrate_dict \<Rightarrow> real option" where
  "winrate_key x = get_or (winrate x) (Some 0)"

text \<open>
  \<open>results.sort(key=..., reverse=True)\<close>. Python's sort is stable, also with
  \<open>reverse=True\<close>, so it is the stable ascending sort on the negated key. With two or more
  elements every key is compared at least once, and \<open><\<close> on a \<open>None\<close> key raises
  TypeError; a list of fewer than two elements is never compared.
\<close>

definition sort_by_winrate_desc :: "winrate_dict list \<Rightarrow> py_error + winrate_dict list" where
  "sort_by_winrate_desc results =
     (if 2 \<le> length results \<and> None \<in> set (map winrate_key results) then Inl TypeError
      else Inr (sort_key (\<lambda>x. - get_or (winrate_key x) 0) results))"

text \<open>The loop over the roster, appending to \<open>results\<close>.\<close>

fun winrates_loop ::
  "network \<Rightarrow> int \<Rightarrow> int \<Rightarrow> address list \<Rightarrow> winrate_dict list \<Rightarrow> winrate_dict list" where
  "winrates_loop net days min_trades [] results = results"
| "winrates_loop net days min_trades (a # as) results =
     (let wr = get_whale_winrate net a days
      in winrates_loop net days min_trades as
           (if min_trades \<le> int (get_or (closed_trades wr) 0) then results @ [wr]
            else results))"

definition get_all_winrates :: "network \<Rightarrow> int \<Rightarrow> int \<Rightarrow> py_error + winrate_dict list" where
  "get_all_winrates net days min_trades =
     sort_by_winrate_desc (winrates_loop net days min_trades WHALE_ADDRESSES [])"

section \<open>get\_current\_sentiment\<close>







section \<open>Concrete inputs\<close>

text \<open>
  Two roster accounts; a stored snapshot of signed size \<open>s\<close>; networks on which every
  account holds a BTC position of signed size \<open>s\<close> (\<open>example_network\<close>), every request
  fails (\<open>failing_network\<close>), the position request fails for \<open>example_account\<close> only
  (\<open>partial_network\<close>), every account has the same fills (\<open>fills_network\<close>), or one
  account has a winning closed trade and the others a fill that closed nothing
  (\<open>mixed_network\<close>). The last four definitions restate the sentiment figures in the
  words of the specification.
\<close>

definition example_account :: address where
  "example_account = ''0xb83de012dba672c76a7dbbbf3e459cb59d7d6e36''"

definition example_position :: "real \<Rightarrow> position" where
  "example_position s =
     \<lparr>address = example_account, size_btc = s,
      direction = (if 0 < s then LONG else SHORT), entry_price = 50000, leverage = 5,
      account_value = 1000, unrealized_pnl = 0\<rparr>"

definition example_network :: "real \<Rightarrow> network" where
  "example_network s =
     \<lparr>userFillsByTime = (\<lambda>_. None),
      clearinghouseState = (\<lambda>_. Some
         \<lparr>assetPositions = Some [Some \<lparr>position_coin = Some ''BTC'', szi = Some s,
                                      entryPx = Some 50000, leverage_value = Some 5,
                                      unrealizedPnl = Some 0\<rparr>],
          accountValue = Some 1000\<rparr>)\<rparr>"


definition other_account :: address where
  "other_account = ''0xb317d2bc2d3d2df5fa441b5bae0ab9d8b07283ae''"


definition btc_fill :: "real \<Rightarrow> fill" where
  "btc_fill x = \<lparr>coin = Some ''BTC'', closedPnl = Some x\<rparr>"

definition fills_network :: "fill list \<Rightarrow> network" where
  "fills_network fs = \<lparr>userFillsByTime = (\<lambda>_. Some fs), clearinghouseState = (\<lambda>_. None)\<rparr>"

definition mixed_network :: network where
  "mixed_network =
     \<lparr>userFillsByTime =
        (\<lambda>x. if x = example_account then Some [btc_fill 100] else Some [btc_fill 0]),
      clearinghouseState = (\<lambda>_. None)\<rparr>"





section \<open>The roster\<close>

lemma distinct_WHALE_ADDRESSES: "distinct WHALE_ADDRESSES"
  unfolding WHALE_ADDRESSES_def by simp

section \<open>Facts about the detection loop\<close>

lemma change_address_detect_change:
  "e \<in> set (detect_change net a current previous) \<Longrightarrow> change_address e = a"
  by (auto simp: detect_change_def Let_def split: option.splits if_splits)

lemma length_detect_change: "length (detect_change net a current previous) \<le> 1"
  by (simp add: detect_change_def Let_def split: option.splits)

lemma fst_check_loop:
  "fst (check_loop net prev as (evs, cur)) =
     evs @ concat (map (\<lambda>a. detect_change net a (get_current_position net a) (prev a)) as)"
  by (induction as arbitrary: evs cur) (simp_all add: Let_def)


lemma filter_concat_map_distinct:
  assumes "distinct as" and "\<And>b e. e \<in> set (f b) \<Longrightarrow> g e = b"
  shows "filter (\<lambda>e. g e = a) (concat (map f as)) = (if a \<in> set as then f a else [])"
  using assms(1)
proof (induction as)
  case Nil
  then show ?case by simp
next
  case (Cons b bs)
  have own: "filter (\<lambda>e. g e = b) (f b) = f b"
    by (rule filter_True) (simp add: assms(2))
  have other: "a \<noteq> b \<Longrightarrow> filter (\<lambda>e. g e = a) (f b) = []"
    by (auto simp: filter_empty_conv dest: assms(2))
  show ?case
  proof (cases "a = b")
    case True
    with Cons show ?thesis by (simp add: own)
  next
    case False
    with Cons show ?thesis by (simp add: other)
  qed
qed

lemma events_of_account:
  "filter (\<lambda>e. change_address e = a) (fst (check_position_changes net prev)) =
     (if a \<in> set WHALE_ADDRESSES
      then detect_change net a (get_current_position net a) (prev a) else [])"
  unfolding check_position_changes_def fst_check_loop
  by (simp only: append_Nil)
     (rule filter_concat_map_distinct [OF distinct_WHALE_ADDRESSES change_address_detect_change])


lemma scan_positions_Some:
  "scan_positions a av ps = Some c \<Longrightarrow>
     address c = a \<and> size_btc c \<noteq> 0 \<and> direction c = (if 0 < size_btc c then LONG else SHORT)"
  by (induction ps) (auto simp: Let_def split: option.splits if_splits)

lemma get_current_position_Some:
  "get_current_position net a = Some c \<Longrightarrow>
     address c = a \<and> size_btc c \<noteq> 0 \<and> direction c = (if 0 < size_btc c then LONG else SHORT)"
  unfolding get_current_position_def
  by (auto split: option.splits dest: scan_positions_Some)

lemma example_account_in_roster: "example_account \<in> set WHALE_ADDRESSES"
  by (simp add: example_account_def WHALE_ADDRESSES_def)

lemma other_account_in_roster: "other_account \<in> set WHALE_ADDRESSES"
  by (simp add: other_account_def WHALE_ADDRESSES_def)

lemma other_account_neq: "other_account \<noteq> example_account"
  by (simp add: other_account_def example_account_def)

lemma get_current_position_example:
  "s \<noteq> 0 \<Longrightarrow> get_current_position (example_network s) a = Some ((example_position s)\<lparr>address := a\<rparr>)"
  by (simp add: get_current_position_def example_network_def example_position_def get_or_def)

lemma get_whale_winrate_example:
  "get_whale_winrate (example_network s) a d = no_fills_result a"
  by (simp add: get_whale_winrate_def example_network_def)

section \<open>Classification of position changes\<close>

text \<open>
  C1. The events of one account in one detection cycle are the result of the
  \<open>if\<close>/\<open>elif\<close> chain for that account, so there is at most one of them. When the
  current and the previous snapshot both exist and their directions differ, that event is
  the DIRECTION\_CHANGE event, whatever the two magnitudes are, and no SIZE\_INCREASE event is
  produced for the account.
\<close>

theorem one_event_per_account:
  "length (filter (\<lambda>e. change_address e = a) (fst (check_position_changes net prev))) \<le> 1 \<and>
   (a \<in> set WHALE_ADDRESSES \<and> get_current_position net a = Some c \<and> prev a = Some p \<and>
    direction c \<noteq> direction p \<longrightarrow>
      filter (\<lambda>e. change_address e = a) (fst (check_position_changes net prev)) =
        [DIRECTION_CHANGE a (address_short a) (direction p) (direction c) \<bar>size_btc c\<bar>
           (entry_price c) (leverage c)
           (get_or (winrate (get_whale_winrate net a 30)) None)
           (get_or (total_pnl (get_whale_winrate net a 30)) 0)
           (get_or (closed_trades (get_whale_winrate net a 30)) 0)] \<and>
      \<not> list_ex is_size_increase
          (filter (\<lambda>e. change_address e = a) (fst (check_position_changes net prev))))"
proof (intro conjI impI)
  show "length (filter (\<lambda>e. change_address e = a) (fst (check_position_changes net prev))) \<le> 1"
    using length_detect_change [of net a "get_current_position net a" "prev a"]
    by (simp add: events_of_account)
next
  assume h: "a \<in> set WHALE_ADDRESSES \<and> get_current_position net a = Some c \<and>
             prev a = Some p \<and> direction c \<noteq> direction p"
  then have flip: "filter (\<lambda>e. change_address e = a) (fst (check_position_changes net prev)) =
        [DIRECTION_CHANGE a (address_short a) (direction p) (direction c) \<bar>size_btc c\<bar>
           (entry_price c) (leverage c)
           (get_or (winrate (get_whale_winrate net a 30)) None)
           (get_or (total_pnl (get_whale_winrate net a 30)) 0)
           (get_or (closed_trades (get_whale_winrate net a 30)) 0)]"
    by (simp add: events_of_account detect_change_def Let_def)
  then show "filter (\<lambda>e. change_address e = a) (fst (check_position_changes net prev)) =
        [DIRECTION_CHANGE a (address_short a) (direction p) (direction c) \<bar>size_btc c\<bar>
           (entry_price c) (leverage c)
           (get_or (winrate (get_whale_winrate net a 30)) None)
           (get_or (total_pnl (get_whale_winrate net a 30)) 0)
           (get_or (closed_trades (get_whale_winrate net a 30)) 0)]" .
  from flip show "\<not> list_ex is_size_increase
          (filter (\<lambda>e. change_address e = a) (fst (check_position_changes net prev)))"
    by simp
qed

theorem one_event_per_account_witness:
  "filter (\<lambda>e. change_address e = example_account)
     (fst (check_position_changes (example_network 151)
        [example_account \<mapsto> example_position (- 100)])) =
   [DIRECTION_CHANGE example_account ''0xb83de012...'' SHORT LONG 151 50000 5 None 0 0]"
proof -
  have cur: "get_current_position (example_network 151) example_account =
               Some ((example_position 151)\<lparr>address := example_account\<rparr>)"
    by (rule get_current_position_example) simp
  have flip: "direction ((example_position 151)\<lparr>address := example_account\<rparr>) \<noteq>
              direction (example_position (- 100))"
    by (simp add: example_position_def)
  have prev: "[example_account \<mapsto> example_position (- 100)] example_account =
                Some (example_position (- 100))"
    by simp
  from one_event_per_account
         [of example_account "example_network 151"
             "[example_account \<mapsto> example_position (- 100)]"
             "(example_position 151)\<lparr>address := example_account\<rparr>"
             "example_position (- 100)"]
       example_account_in_roster cur flip prev
  show ?thesis
    by (simp add: get_whale_winrate_example no_fills_result_def get_or_def
          example_position_def address_short_def example_account_def)
qed

text \<open>
  C2. A roster account with no previous snapshot and a current snapshot yields exactly one
  NEW\_POSITION event; its direction is LONG when the signed size is positive and SHORT
  otherwise, and the signed size of a current snapshot is never 0.
\<close>

theorem new_position_event:
  assumes "a \<in> set WHALE_ADDRESSES" and "prev a = None"
    and "get_current_position net a = Some c"
  shows "filter (\<lambda>e. change_address e = a) (fst (check_position_changes net prev)) =
           [NEW_POSITION a (address_short a) (if 0 < size_btc c then LONG else SHORT)
              \<bar>size_btc c\<bar> (entry_price c) (leverage c) (account_value c)
              (get_or (winrate (get_whale_winrate net a 30)) None)
              (get_or (total_pnl (get_whale_winrate net a 30)) 0)
              (get_or (closed_trades (get_whale_winrate net a 30)) 0)] \<and>
         size_btc c \<noteq> 0"
proof -
  from assms(3) have dir: "direction c = (if 0 < size_btc c then LONG else SHORT)"
    and nz: "size_btc c \<noteq> 0"
    by (simp_all add: get_current_position_Some)
  have "detect_change net a (Some c) None =
          [NEW_POSITION a (address_short a) (direction c) \<bar>size_btc c\<bar> (entry_price c)
             (leverage c) (account_value c)
             (get_or (winrate (get_whale_winrate net a 30)) None)
             (get_or (total_pnl (get_whale_winrate net a 30)) 0)
             (get_or (closed_trades (get_whale_winrate net a 30)) 0)]"
    by (simp add: detect_change_def Let_def)
  with assms dir nz show ?thesis
    by (simp add: events_of_account)
qed

theorem new_position_event_witness:
  "filter (\<lambda>e. change_address e = example_account)
     (fst (check_position_changes (example_network (- 2)) Map.empty)) =
   [NEW_POSITION example_account ''0xb83de012...'' SHORT 2 50000 5 1000 None 0 0]"
proof -
  have cur: "get_current_position (example_network (- 2)) example_account =
               Some ((example_position (- 2))\<lparr>address := example_account\<rparr>)"
    by (rule get_current_position_example) simp
  have prev: "(Map.empty :: address \<rightharpoonup> position) example_account = None"
    by simp
  from new_position_event [OF example_account_in_roster prev cur]
  show ?thesis
    by (simp add: get_whale_winrate_example no_fills_result_def get_or_def
          example_position_def address_short_def example_account_def)
qed

text \<open>
  C4. An account whose previous snapshot exists and whose current snapshot is absent yields
  no event; the detection cycle is a total function, so it raises nothing.
\<close>

theorem closed_position_no_event:
  assumes "prev a = Some p" and "get_current_position net a = None"
  shows "filter (\<lambda>e. change_address e = a) (fst (check_position_changes net prev)) = []"
  using assms by (simp add: events_of_account detect_change_def Let_def)

theorem closed_position_no_event_witness:
  "filter (\<lambda>e. change_address e = example_account)
     (fst (check_position_changes (example_network 0)
        [example_account \<mapsto> example_position 3])) = []"
proof -
  have cur: "get_current_position (example_network 0) example_account = None"
    by (simp add: get_current_position_def example_network_def get_or_def)
  have prev: "[example_account \<mapsto> example_position 3] example_account =
                Some (example_position 3)"
    by simp
  from closed_position_no_event
         [where prev = "[example_account \<mapsto> example_position 3]" and a = example_account
            and p = "example_position 3" and net = "example_network 0", OF prev cur]
  show ?thesis .
qed





section \<open>Performance scores\<close>






section \<open>Fetch failures\<close>




section \<open>Ranking\<close>

lemma winrates_loop_eq:
  "winrates_loop net days m as results =
     results @ filter (\<lambda>wr. m \<le> int (get_or (closed_trades wr) 0))
                 (map (\<lambda>a. get_whale_winrate net a days) as)"
  by (induction as arbitrary: results) (simp_all add: Let_def)

lemma closed_trades_winrate:
  "1 \<le> get_or (closed_trades (get_whale_winrate net a days)) 0 \<Longrightarrow>
     \<exists>x. winrate (get_whale_winrate net a days) = Some (Some x)"
  by (auto simp: get_whale_winrate_def no_fills_result_def get_or_def Let_def
           split: option.splits if_splits)

lemma retained_have_winrate:
  assumes "1 \<le> m" and "r \<in> set (winrates_loop net days m as [])"
  shows "\<exists>x. winrate r = Some (Some x)"
proof -
  from assms(2) obtain a where r: "r = get_whale_winrate net a days"
    and "m \<le> int (get_or (closed_trades r) 0)"
    by (auto simp: winrates_loop_eq)
  with assms(1) have "1 \<le> get_or (closed_trades (get_whale_winrate net a days)) 0"
    by simp
  then show ?thesis
    unfolding r by (rule closed_trades_winrate)
qed

lemma retained_keys:
  assumes "1 \<le> m"
  shows "None \<notin> set (map winrate_key (winrates_loop net days m as []))"
proof
  assume "None \<in> set (map winrate_key (winrates_loop net days m as []))"
  then obtain r where r: "r \<in> set (winrates_loop net days m as [])" and "winrate_key r = None"
    by auto
  moreover from retained_have_winrate [OF assms r] obtain x where "winrate r = Some (Some x)" ..
  ultimately show False by (simp add: winrate_key_def get_or_def)
qed

lemma get_all_winrates_ranked:
  assumes "1 \<le> min_trades"
  shows "\<exists>rs. get_all_winrates net days min_trades = Inr rs \<and>
           mset rs = mset (filter (\<lambda>wr. min_trades \<le> int (get_or (closed_trades wr) 0))
                             (map (\<lambda>a. get_whale_winrate net a days) WHALE_ADDRESSES)) \<and>
           sorted_wrt (\<lambda>x y. get_or (winrate_key y) 0 \<le> get_or (winrate_key x) 0) rs \<and>
           (\<forall>v. filter (\<lambda>r. winrate r = Some (Some v)) rs =
                filter (\<lambda>r. winrate r = Some (Some v))
                  (filter (\<lambda>wr. min_trades \<le> int (get_or (closed_trades wr) 0))
                     (map (\<lambda>a. get_whale_winrate net a days) WHALE_ADDRESSES)))"
proof -
  let ?cands = "winrates_loop net days min_trades WHALE_ADDRESSES []"
  let ?key = "\<lambda>x. - get_or (winrate_key x) 0"
  let ?rs = "sort_key ?key ?cands"
  have c: "?cands = filter (\<lambda>wr. min_trades \<le> int (get_or (closed_trades wr) 0))
                     (map (\<lambda>a. get_whale_winrate net a days) WHALE_ADDRESSES)"
    by (simp add: winrates_loop_eq)
  have ok: "get_all_winrates net days min_trades = Inr ?rs"
    using retained_keys [OF assms, of net days WHALE_ADDRESSES]
    by (simp add: get_all_winrates_def sort_by_winrate_desc_def)
  have ms: "mset ?rs = mset ?cands" by simp
  have "sorted (map ?key ?rs)" by (rule sorted_sort_key)
  then have srt: "sorted_wrt (\<lambda>x y. get_or (winrate_key y) 0 \<le> get_or (winrate_key x) 0) ?rs"
    by (simp add: sorted_map)
  have stable: "filter (\<lambda>r. winrate r = Some (Some v)) ?rs =
                filter (\<lambda>r. winrate r = Some (Some v)) ?cands" for v
  proof -
    have eq: "(winrate r = Some (Some v)) = (?key r = - v)" if "r \<in> set ?cands" for r
    proof -
      from retained_have_winrate [OF assms that] obtain x where "winrate r = Some (Some x)" ..
      then show ?thesis by (simp add: winrate_key_def get_or_def)
    qed
    have "filter (\<lambda>r. winrate r = Some (Some v)) ?rs = filter (\<lambda>r. ?key r = - v) ?rs"
      by (rule filter_cong) (simp_all add: eq)
    also have "\<dots> = filter (\<lambda>r. ?key r = - v) ?cands"
      by (rule sort_key_stable)
    also have "\<dots> = filter (\<lambda>r. winrate r = Some (Some v)) ?cands"
      by (rule filter_cong) (simp_all add: eq)
    finally show ?thesis .
  qed
  from ok ms srt stable show ?thesis
    unfolding c by blast
qed

lemma open_only_winrate:
  "get_whale_winrate (fills_network [btc_fill 0]) a d =
     \<lparr>wr_address = a, wr_address_short = None, has_btc_trades = True,
      total_btc_fills = Some 1, closed_trades = Some 0, wins = None, losses = None,
      winrate = Some None, total_pnl = None, profit_factor = None, period_days = None\<rparr>"
  by (simp add: get_whale_winrate_def fills_network_def btc_fill_def closed_trades_of_def
        btc_fills_of_def pnl_def get_or_def Let_def)

lemma length_WHALE_ADDRESSES: "length WHALE_ADDRESSES = 36"
  by (simp add: WHALE_ADDRESSES_def)

text \<open>
  C7. With \<open>min_trades = 0\<close> and every account holding one BTC fill that closed nothing,
  all 36 dicts are retained, each with \<open>winrate\<close> \<open>None\<close>, and the sort raises TypeError
  instead of returning a ranking. For \<open>min_trades \<ge> 1\<close> the ranking is returned, sorted
  and stable (\<open>get_all_winrates_ranked\<close>).
\<close>

theorem ranking_raises_on_null_winrates:
  "map winrate (winrates_loop (fills_network [btc_fill 0]) 30 0 WHALE_ADDRESSES []) =
     replicate 36 (Some None) \<and>
   get_all_winrates (fills_network [btc_fill 0]) 30 0 = Inl TypeError"
proof -
  have rs: "winrates_loop (fills_network [btc_fill 0]) 30 0 WHALE_ADDRESSES [] =
              map (\<lambda>a. get_whale_winrate (fills_network [btc_fill 0]) a 30) WHALE_ADDRESSES"
    by (simp add: winrates_loop_eq open_only_winrate get_or_def)
  have ws: "map winrate (winrates_loop (fills_network [btc_fill 0]) 30 0 WHALE_ADDRESSES []) =
              replicate 36 (Some None)"
    unfolding rs
    by (simp add: open_only_winrate o_def map_replicate_const length_WHALE_ADDRESSES)
  have keys: "map winrate_key (winrates_loop (fills_network [btc_fill 0]) 30 0 WHALE_ADDRESSES []) =
                replicate 36 None"
    unfolding rs
    by (simp add: open_only_winrate o_def map_replicate_const length_WHALE_ADDRESSES
          winrate_key_def get_or_def)
  have len: "length (winrates_loop (fills_network [btc_fill 0]) 30 0 WHALE_ADDRESSES []) = 36"
    unfolding rs by (simp add: length_WHALE_ADDRESSES)
  have "get_all_winrates (fills_network [btc_fill 0]) 30 0 = Inl TypeError"
    by (simp add: get_all_winrates_def sort_by_winrate_desc_def keys len)
  with ws show ?thesis by simp
qed

lemma mixed_network_head:
  "winrate (get_whale_winrate mixed_network example_account 30) = Some (Some 100)"
  by (simp add: get_whale_winrate_def mixed_network_def btc_fill_def closed_trades_of_def
        btc_fills_of_def pnl_def get_or_def Let_def py_round_def)

lemma mixed_network_other:
  "winrate_key (get_whale_winrate mixed_network other_account 30) = None \<and>
   closed_trades (get_whale_winrate mixed_network other_account 30) = Some 0"
  using other_account_neq
  by (simp add: get_whale_winrate_def mixed_network_def btc_fill_def closed_trades_of_def
        btc_fills_of_def pnl_def get_or_def Let_def winrate_key_def)

text \<open>
  C10. For \<open>min_trades \<ge> 1\<close> no retained dict has a \<open>None\<close> sort key, the sort returns,
  and every entry of the returned list carries a numeric winrate. For \<open>min_trades = 0\<close>
  this fails: on \<open>mixed_network\<close> the retained dicts hold both a \<open>None\<close> key and the
  key 100, and the sort raises TypeError.
\<close>

theorem winrate_keys_numeric:
  "(1 \<le> min_trades \<longrightarrow>
      None \<notin> set (map winrate_key (winrates_loop net days min_trades WHALE_ADDRESSES [])) \<and>
      (\<exists>rs. get_all_winrates net days min_trades = Inr rs \<and>
            (\<forall>r \<in> set rs. \<exists>x. winrate r = Some (Some x)))) \<and>
   None \<in> set (map winrate_key (winrates_loop mixed_network 30 0 WHALE_ADDRESSES [])) \<and>
   Some 100 \<in> set (map winrate_key (winrates_loop mixed_network 30 0 WHALE_ADDRESSES [])) \<and>
   get_all_winrates mixed_network 30 0 = Inl TypeError"
proof (intro conjI impI)
  assume m: "1 \<le> min_trades"
  show k: "None \<notin> set (map winrate_key (winrates_loop net days min_trades WHALE_ADDRESSES []))"
    by (rule retained_keys [OF m])
  have "get_all_winrates net days min_trades =
          Inr (sort_key (\<lambda>x. - get_or (winrate_key x) 0)
                 (winrates_loop net days min_trades WHALE_ADDRESSES []))"
    using k by (simp add: get_all_winrates_def sort_by_winrate_desc_def)
  moreover have "\<forall>r \<in> set (sort_key (\<lambda>x. - get_or (winrate_key x) 0)
                 (winrates_loop net days min_trades WHALE_ADDRESSES [])).
                   \<exists>x. winrate r = Some (Some x)"
    using retained_have_winrate [OF m] by simp
  ultimately show "\<exists>rs. get_all_winrates net days min_trades = Inr rs \<and>
            (\<forall>r \<in> set rs. \<exists>x. winrate r = Some (Some x))"
    by blast
next
  have "get_whale_winrate mixed_network other_account 30 \<in>
          set (winrates_loop mixed_network 30 0 WHALE_ADDRESSES [])"
    using other_account_in_roster mixed_network_other
    by (simp add: winrates_loop_eq get_or_def)
  with mixed_network_other
  show n: "None \<in> set (map winrate_key (winrates_loop mixed_network 30 0 WHALE_ADDRESSES []))"
    by force
  have "get_whale_winrate mixed_network example_account 30 \<in>
          set (winrates_loop mixed_network 30 0 WHALE_ADDRESSES [])"
    using example_account_in_roster
    by (simp add: winrates_loop_eq get_or_def split: option.splits)
  moreover have "winrate_key (get_whale_winrate mixed_network example_account 30) = Some 100"
    using mixed_network_head by (simp add: winrate_key_def get_or_def)
  ultimately
  show s: "Some 100 \<in> set (map winrate_key (winrates_loop mixed_network 30 0 WHALE_ADDRESSES []))"
    by force
  have "card {None, Some (100::real)} \<le>
          card (set (map winrate_key (winrates_loop mixed_network 30 0 WHALE_ADDRESSES [])))"
    using n s by (intro card_mono) simp_all
  also have "\<dots> \<le> length (map winrate_key (winrates_loop mixed_network 30 0 WHALE_ADDRESSES []))"
    by (rule card_length)
  finally have "2 \<le> length (winrates_loop mixed_network 30 0 WHALE_ADDRESSES [])"
    by simp
  with n show "get_all_winrates mixed_network 30 0 = Inl TypeError"
    by (simp add: get_all_winrates_def sort_by_winrate_desc_def)
qed

theorem winrate_keys_numeric_witness:
  "\<exists>rs. get_all_winrates (fills_network [btc_fill 100]) 30 1 = Inr rs \<and>
        (\<forall>r \<in> set rs. \<exists>x. winrate r = Some (Some x))"
  using winrate_keys_numeric [of 1 "fills_network [btc_fill 100]" 30] by simp

section \<open>Sentiment\<close>











end
